theory Spec2Isabelle
  imports Complex_Main
begin

section \<open>models.py: holdings and portfolios\<close>

text \<open>
  A holding is stored as a dictionary of four entries. \<^verbatim>\<open>StockHolding\<close> and
  \<^verbatim>\<open>CryptoHolding\<close> name them ticker, quantity, avg_cost and purchase_date;
  \<^verbatim>\<open>MutualFundHolding\<close> has the same shape with the two numbers named units and
  avg_nav. One record stands for the dictionary of any of the three classes. The numbers
  are Python floats: the type \<open>'a\<close> of numbers is left open, and the valuation below
  uses only its zero, addition, subtraction and multiplication, in the order of the source.
\<close>

record 'a asset =
  ticker :: string
  quantity :: 'a
  avg_cost :: 'a
  purchase_date :: "string option"

record 'a Portfolio =
  stocks :: "'a asset list"
  mutual_funds :: "'a asset list"
  crypto :: "'a asset list"

definition empty_portfolio :: "'a Portfolio" where
  "empty_portfolio = \<lparr>stocks = [], mutual_funds = [], crypto = []\<rparr>"

section \<open>Strings and dictionaries\<close>

text \<open>
  \<^verbatim>\<open>str.upper\<close> on ASCII text: the letters a to z move to A to Z and every other
  character stays. Outside ASCII Python's \<^verbatim>\<open>str.upper\<close> does more (it follows
  Unicode and may change the length), so every statement below that depends on the result
  of \<open>upper\<close> is made for ASCII tickers, \<^verbatim>\<open>str.isascii\<close>.
\<close>

definition upper_char :: "char \<Rightarrow> char" where
  "upper_char c =
     (let n = (of_char c :: nat) in if 97 \<le> n \<and> n \<le> 122 then char_of (n - 32) else c)"

definition upper :: "string \<Rightarrow> string" where
  "upper s = map upper_char s"

definition isascii :: "string \<Rightarrow> bool" where
  "isascii s = list_all (\<lambda>c. (of_char c :: nat) < 128) s"

text \<open>\<^verbatim>\<open>sep.join(xs)\<close>.\<close>

fun join :: "string \<Rightarrow> string list \<Rightarrow> string" where
  "join sep [] = []"
| "join sep [x] = x"
| "join sep (x # y # zs) = x @ sep @ join sep (y # zs)"

text \<open>
  A Python dictionary is an association list in insertion order. \<^verbatim>\<open>d[k]\<close> is
  \<open>map_of d k\<close>, where \<open>None\<close> stands for the \<^verbatim>\<open>KeyError\<close> that the read of a
  missing key raises, and \<^verbatim>\<open>d[k] = v\<close> is \<open>dict_set\<close>.
\<close>

fun dict_set :: "('k \<times> 'v) list \<Rightarrow> 'k \<Rightarrow> 'v \<Rightarrow> ('k \<times> 'v) list" where
  "dict_set [] k v = [(k, v)]"
| "dict_set ((k', v') # d) k v = (if k' = k then (k, v) # d else (k', v') # dict_set d k v)"

datatype error = KeyError string

text \<open>
  \<^verbatim>\<open>model_dump\<close> gives the dictionary of a portfolio, one key for each field.
  \<^verbatim>\<open>Portfolio.model_validate\<close> reads a dictionary back: a field whose key is missing
  gets its default, the empty list, and a key that is no field is ignored.
\<close>

definition model_dump :: "'a Portfolio \<Rightarrow> (string \<times> 'a asset list) list" where
  "model_dump p = [(''stocks'', stocks p), (''mutual_funds'', mutual_funds p), (''crypto'', crypto p)]"

definition model_validate :: "(string \<times> 'a asset list) list \<Rightarrow> 'a Portfolio" where
  "model_validate d =
     \<lparr>stocks = (case map_of d ''stocks'' of None \<Rightarrow> [] | Some xs \<Rightarrow> xs),
      mutual_funds = (case map_of d ''mutual_funds'' of None \<Rightarrow> [] | Some xs \<Rightarrow> xs),
      crypto = (case map_of d ''crypto'' of None \<Rightarrow> [] | Some xs \<Rightarrow> xs)\<rparr>"

section \<open>portfolio\_manager.py: the holding store\<close>

text \<open>
  The process-wide table \<^verbatim>\<open>USER_DATA\<close> and the file \<^verbatim>\<open>DATA_FILE\<close>. The file
  is absent, unreadable as JSON, or holds a whole table. \<open>writes\<close> counts the calls of
  \<^verbatim>\<open>save_data\<close>, so that a write of an unchanged table is still seen.
\<close>

datatype 'a data_file = Absent | Corrupt | Document "string \<rightharpoonup> 'a Portfolio"

record 'a state =
  USER_DATA :: "string \<rightharpoonup> 'a Portfolio"
  DATA_FILE :: "'a data_file"
  writes :: nat

definition load_data :: "'a state \<Rightarrow> 'a state" where
  "load_data s =
     (case DATA_FILE s of
        Document t \<Rightarrow> s\<lparr>USER_DATA := t\<rparr>
      | Corrupt \<Rightarrow> s\<lparr>USER_DATA := Map.empty\<rparr>
      | Absent \<Rightarrow> s\<lparr>USER_DATA := Map.empty\<rparr>)"

definition save_data :: "'a state \<Rightarrow> 'a state" where
  "save_data s = s\<lparr>DATA_FILE := Document (USER_DATA s), writes := Suc (writes s)\<rparr>"

text \<open>\<^verbatim>\<open>USER_DATA.setdefault(puch_user_id, {...})\<close>, then the validated copy.\<close>

definition get_user_portfolio :: "'a state \<Rightarrow> string \<Rightarrow> 'a Portfolio \<times> 'a state" where
  "get_user_portfolio s puch_user_id =
     (case USER_DATA s puch_user_id of
        None \<Rightarrow> (empty_portfolio,
                 s\<lparr>USER_DATA := (USER_DATA s)(puch_user_id \<mapsto> empty_portfolio)\<rparr>)
      | Some user_data \<Rightarrow> (user_data, s))"

text \<open>
  The literal \<^verbatim>\<open>asset_type\<close>, 'stock', 'mutual_fund' or 'crypto', and the key
  \<^verbatim>\<open>f"{asset_type}s"\<close> that both operations below compute from it. For 'crypto' the
  key is 'cryptos', which is no key of the dictionary that \<^verbatim>\<open>model_dump\<close> returns.
\<close>

datatype asset_type = Stock | Mutual_fund | Crypto

fun asset_type_str :: "asset_type \<Rightarrow> string" where
  "asset_type_str Stock = ''stock''"
| "asset_type_str Mutual_fund = ''mutual_fund''"
| "asset_type_str Crypto = ''crypto''"

text \<open>
  The loop of \<^verbatim>\<open>add_asset_to_portfolio\<close>: the first entry whose stored ticker
  equals \<^verbatim>\<open>ticker\<close> is overwritten and the loop breaks; the flag says whether one
  was found.
\<close>

fun update_existing :: "string \<Rightarrow> 'a asset \<Rightarrow> 'a asset list \<Rightarrow> 'a asset list \<times> bool" where
  "update_existing tk asset_data [] = ([], False)"
| "update_existing tk asset_data (a # as) =
     (if ticker a = tk then (asset_data # as, True)
      else (let (as', found) = update_existing tk asset_data as in (a # as', found)))"

text \<open>
  Both operations return their result, or the error they raise, together with the state
  they leave: the user that \<^verbatim>\<open>get_user_portfolio\<close> created stays in the table when
  the read of \<^verbatim>\<open>portfolio[asset_list_key]\<close> raises afterwards. The read comes first
  in both: in the head of the loop of \<^verbatim>\<open>add_asset_to_portfolio\<close>, and in
  \<^verbatim>\<open>initial_count\<close> of \<^verbatim>\<open>remove_asset_from_portfolio\<close>.
\<close>

definition add_asset_to_portfolio ::
  "'a state \<Rightarrow> string \<Rightarrow> asset_type \<Rightarrow> 'a asset \<Rightarrow> (error + unit) \<times> 'a state" where
  "add_asset_to_portfolio s puch_user_id asset_type asset_data =
     (let (p, s1) = get_user_portfolio s puch_user_id;
          portfolio = model_dump p;
          asset_list_key = asset_type_str asset_type @ ''s'';
          tk = upper (ticker asset_data)
      in case map_of portfolio asset_list_key of
           None \<Rightarrow> (Inl (KeyError asset_list_key), s1)
         | Some assets \<Rightarrow>
             (let (xs, found) = update_existing tk asset_data assets;
                  xs' = (if \<not> found then xs @ [asset_data] else xs);
                  portfolio' = dict_set portfolio asset_list_key xs'
              in (Inr (),
                  save_data (s1\<lparr>USER_DATA :=
                    (USER_DATA s1)(puch_user_id \<mapsto> model_validate portfolio')\<rparr>))))"

definition remove_asset_from_portfolio ::
  "'a state \<Rightarrow> string \<Rightarrow> asset_type \<Rightarrow> string \<Rightarrow> (error + bool) \<times> 'a state" where
  "remove_asset_from_portfolio s puch_user_id asset_type tk =
     (let (p, s1) = get_user_portfolio s puch_user_id;
          portfolio = model_dump p;
          asset_list_key = asset_type_str asset_type @ ''s''
      in case map_of portfolio asset_list_key of
           None \<Rightarrow> (Inl (KeyError asset_list_key), s1)
         | Some assets \<Rightarrow>
             (let initial_count = length assets;
                  xs = filter (\<lambda>a. upper (ticker a) \<noteq> upper tk) assets;
                  portfolio' = dict_set portfolio asset_list_key xs
              in if length xs < initial_count
                 then (Inr True,
                       save_data (s1\<lparr>USER_DATA :=
                         (USER_DATA s1)(puch_user_id \<mapsto> model_validate portfolio')\<rparr>))
                 else (Inr False, s1)))"

section \<open>fmp\_client.py: the market data gateway\<close>

text \<open>
  The provider is a function from requests to what \<^verbatim>\<open>client.get\<close>,
  \<^verbatim>\<open>raise_for_status\<close> and \<^verbatim>\<open>response.json\<close> do with them: the transport
  raises, the status is not 2xx, the body is not JSON, or a decoded body comes back. Each
  gateway operation returns its result together with the list of requests it sent.
\<close>

record request =
  url :: string
  params :: "(string \<times> string) list"

datatype 'j response = TransportError | HTTPStatusError nat | JSONDecodeError | Json 'j

record FMPClient =
  api_key :: string
  base_url :: string

definition make_request ::
  "FMPClient \<Rightarrow> (request \<Rightarrow> 'j response) \<Rightarrow> string \<Rightarrow> (string \<times> string) list
     \<Rightarrow> 'j option \<times> request list" where
  "make_request self net endpoint ps =
     (let req = \<lparr>url = base_url self @ ''/'' @ endpoint,
                 params = ps @ [(''apikey'', api_key self)]\<rparr>
      in (case net req of
            Json j \<Rightarrow> Some j
          | HTTPStatusError code \<Rightarrow> None
          | TransportError \<Rightarrow> None
          | JSONDecodeError \<Rightarrow> None,
          [req]))"

text \<open>
  A quote of the provider: its symbol and its price, which JSON allows to be null
  (\<open>None\<close>). The body of a quote request is taken to be a list of such objects.
\<close>

record 'a quote =
  symbol :: string
  price :: "'a option"

text \<open>
  \<^verbatim>\<open>get_quotes\<close> returns a list, or Python's \<^verbatim>\<open>None\<close> (here \<open>None\<close>) when
  \<^verbatim>\<open>_make_request\<close> returned it.
\<close>

definition get_quotes ::
  "FMPClient \<Rightarrow> (request \<Rightarrow> 'a quote list response) \<Rightarrow> string list
     \<Rightarrow> 'a quote list option \<times> request list" where
  "get_quotes self net symbols =
     (if symbols = [] then (Some [], [])
      else make_request self net (''quote/'' @ join '','' symbols) [])"


section \<open>main.py: the tools\<close>

text \<open>
  \<^verbatim>\<open>add_stock\<close> and \<^verbatim>\<open>add_crypto\<close> build the holding from their arguments and
  store its dump; the sentence they return prints a float and is left out. An error of
  the store is not caught and leaves the tool.
\<close>

definition add_stock ::
  "'a state \<Rightarrow> string \<Rightarrow> string \<Rightarrow> 'a \<Rightarrow> 'a \<Rightarrow> string option \<Rightarrow> (error + unit) \<times> 'a state" where
  "add_stock s puch_user_id tk qty cost pdate =
     add_asset_to_portfolio s puch_user_id Stock
       \<lparr>ticker = tk, quantity = qty, avg_cost = cost, purchase_date = pdate\<rparr>"

definition add_crypto ::
  "'a state \<Rightarrow> string \<Rightarrow> string \<Rightarrow> 'a \<Rightarrow> 'a \<Rightarrow> string option \<Rightarrow> (error + unit) \<times> 'a state" where
  "add_crypto s puch_user_id tk qty cost pdate =
     add_asset_to_portfolio s puch_user_id Crypto
       \<lparr>ticker = tk, quantity = qty, avg_cost = cost, purchase_date = pdate\<rparr>"

definition remove_asset :: "'a state \<Rightarrow> string \<Rightarrow> string \<Rightarrow> (error + string) \<times> 'a state" where
  "remove_asset s puch_user_id tk0 =
     (let tk = upper tk0;
          (r1, s1) = remove_asset_from_portfolio s puch_user_id Stock tk
      in case r1 of
           Inl e \<Rightarrow> (Inl e, s1)
         | Inr b1 \<Rightarrow>
            if b1 then (Inr (''Done. I've removed stock '' @ tk @ '' from your portfolio.''), s1)
            else
             (let (r2, s2) = remove_asset_from_portfolio s1 puch_user_id Crypto tk
              in case r2 of
                   Inl e \<Rightarrow> (Inl e, s2)
                 | Inr b2 \<Rightarrow>
                    if b2
                    then (Inr (''Done. I've removed crypto '' @ tk @ '' from your portfolio.''), s2)
                    else
                     (let (r3, s3) = remove_asset_from_portfolio s2 puch_user_id Mutual_fund tk
                      in case r3 of
                           Inl e \<Rightarrow> (Inl e, s3)
                         | Inr b3 \<Rightarrow>
                            if b3
                            then (Inr (''Done. I've removed fund '' @ tk @ '' from your portfolio.''), s3)
                            else (Inr (''I couldn't find '' @ tk @ '' in your portfolio to remove.''),
                                  s3))))"

text \<open>
  The summary before it is rendered: an ordered dictionary whose values are the detail
  list of a class or the overview. The fields hold the numbers that the source formats
  into text; the YAML rendering and the fixed instructions after it are not modelled.
\<close>

record 'a detail =
  detail_ticker :: string
  detail_quantity :: 'a
  current_price :: 'a
  current_value :: 'a
  total_gain_loss :: 'a

record 'a overview =
  total_estimated_value :: 'a
  total_investment :: 'a
  total_portfolio_gain_loss :: 'a

datatype 'a summary_value = Details "'a detail list" | Overview "'a overview"

type_synonym 'a summary_data = "(string \<times> 'a summary_value) list"


text \<open>\<^verbatim>\<open>{q['symbol']: q['price'] for q in live_quotes}\<close>: a later quote overwrites.\<close>

definition price_map_of :: "'a quote list \<Rightarrow> (string \<rightharpoonup> 'a option)" where
  "price_map_of live_quotes = foldl (\<lambda>m q. m(symbol q \<mapsto> price q)) Map.empty live_quotes"

text \<open>\<^verbatim>\<open>price_map.get(symbol)\<close>: the value, or \<^verbatim>\<open>None\<close> for a missing key.\<close>

definition dict_get :: "('k \<rightharpoonup> 'v option) \<Rightarrow> 'k \<Rightarrow> 'v option" where
  "dict_get m k = (case m k of None \<Rightarrow> None | Some v \<Rightarrow> v)"

text \<open>The inner loop over the assets of one class, on the running totals and details.\<close>

fun value_assets ::
  "string \<Rightarrow> ('a asset \<Rightarrow> 'a) \<Rightarrow> (string \<rightharpoonup> 'a option) \<Rightarrow> 'a asset list
     \<Rightarrow> 'a \<times> 'a \<times> 'a detail list
     \<Rightarrow> ('a::{zero,plus,minus,times}) \<times> 'a \<times> 'a detail list" where
  "value_assets key cost_field price_map [] acc = acc"
| "value_assets key cost_field price_map (asset # assets) (total_value, total_inv, details) =
     (let sym = (if key = ''crypto'' then upper (ticker asset) @ ''USD''
                 else upper (ticker asset))
      in case dict_get price_map sym of
           None \<Rightarrow> value_assets key cost_field price_map assets (total_value, total_inv, details)
         | Some cur_price \<Rightarrow>
             if cur_price = 0
             then value_assets key cost_field price_map assets (total_value, total_inv, details)
             else
              (let cost_basis = cost_field asset;
                   qty = quantity asset;
                   cur_value = qty * cur_price;
                   investment_value = qty * cost_basis;
                   gain_loss = cur_value - investment_value
               in value_assets key cost_field price_map assets
                    (total_value + cur_value, total_inv + investment_value,
                     details @ [\<lparr>detail_ticker = ticker asset, detail_quantity = qty,
                                 current_price = cur_price, current_value = cur_value,
                                 total_gain_loss = gain_loss\<rparr>])))"

text \<open>The outer loop over \<^verbatim>\<open>asset_types\<close>.\<close>

fun value_classes ::
  "(string \<rightharpoonup> 'a option) \<Rightarrow> (string \<times> 'a asset list \<times> ('a asset \<Rightarrow> 'a)) list
     \<Rightarrow> 'a summary_data \<times> 'a \<times> 'a
     \<Rightarrow> 'a summary_data \<times> ('a::{zero,plus,minus,times}) \<times> 'a" where
  "value_classes price_map [] st = st"
| "value_classes price_map ((key, assets, cost_field) # rest) (summary_data, total_value, total_inv) =
     (let (total_value', total_inv', details) =
            value_assets key cost_field price_map assets (total_value, total_inv, [])
      in value_classes price_map rest
           (if details \<noteq> [] then dict_set summary_data key (Details details) else summary_data,
            total_value', total_inv'))"

definition summarize ::
  "(string \<rightharpoonup> 'a option) \<Rightarrow> 'a Portfolio \<Rightarrow> ('a::{zero,plus,minus,times}) summary_data" where
  "summarize price_map portfolio =
     (let asset_types = [(''stocks'', stocks portfolio, avg_cost),
                         (''crypto'', crypto portfolio, avg_cost)];
          (summary_data, total_value, total_inv) = value_classes price_map asset_types ([], 0, 0);
          gain = total_value - total_inv
      in dict_set summary_data ''portfolio_overview''
           (Overview \<lparr>total_estimated_value = total_value, total_investment = total_inv,
                      total_portfolio_gain_loss = gain\<rparr>))"

datatype 'a tool_result = Text string | Report "'a summary_data"

definition empty_message :: string where
  "empty_message = ''Your portfolio is currently empty. You can add assets using tools like `add_stock` or `add_crypto`.''"

definition unavailable_message :: string where
  "unavailable_message = ''Sorry, I couldn't fetch live market prices right now. Please try again.''"

definition all_tickers_of :: "'a Portfolio \<Rightarrow> string list" where
  "all_tickers_of portfolio =
     map ticker (stocks portfolio) @ map ticker (mutual_funds portfolio)
       @ map (\<lambda>c. ticker c @ ''USD'') (crypto portfolio)"

text \<open>The result, the requests sent to the provider, and the state afterwards.\<close>

definition get_portfolio_summary ::
  "FMPClient \<Rightarrow> (request \<Rightarrow> 'a quote list response) \<Rightarrow> 'a state \<Rightarrow> string
     \<Rightarrow> ('a::{zero,plus,minus,times}) tool_result \<times> request list \<times> 'a state" where
  "get_portfolio_summary fmp net s puch_user_id =
     (let (portfolio, s1) = get_user_portfolio s puch_user_id;
          all_tickers = all_tickers_of portfolio
      in if all_tickers = [] then (Text empty_message, [], s1)
         else
          (let (live_quotes, calls) = get_quotes fmp net all_tickers
           in case live_quotes of
                None \<Rightarrow> (Text unavailable_message, calls, s1)
              | Some [] \<Rightarrow> (Text unavailable_message, calls, s1)
              | Some qs \<Rightarrow> (Report (summarize (price_map_of qs) portfolio), calls, s1)))"


section \<open>Example inputs\<close>

text \<open>
  A store with no user and no file, and a store whose user \<open>u\<close> holds a stock entered
  in lower case, the ticker BTC both as a stock and as a crypto holding, and one fund.
\<close>

definition empty_state :: "real state" where
  "empty_state = \<lparr>USER_DATA = Map.empty, DATA_FILE = Absent, writes = 0\<rparr>"

definition example_portfolio :: "real Portfolio" where
  "example_portfolio =
     \<lparr>stocks = [\<lparr>ticker = ''aapl'', quantity = 10, avg_cost = 100, purchase_date = None\<rparr>,
                \<lparr>ticker = ''BTC'', quantity = 2, avg_cost = 50, purchase_date = None\<rparr>],
      mutual_funds = [\<lparr>ticker = ''VFIAX'', quantity = 2, avg_cost = 10, purchase_date = None\<rparr>],
      crypto = [\<lparr>ticker = ''BTC'', quantity = 3, avg_cost = 20000, purchase_date = None\<rparr>]\<rparr>"

definition example_state :: "real state" where
  "example_state = \<lparr>USER_DATA = [''u'' \<mapsto> example_portfolio], DATA_FILE = Absent, writes = 0\<rparr>"

text \<open>
  Vocabulary for the statements about removal: a list holds a ticker when some entry's
  ticker equals it once both are upper-cased, and the list without that ticker.
\<close>

definition has_ticker :: "string \<Rightarrow> 'a asset list \<Rightarrow> bool" where
  "has_ticker tk xs = (\<exists>a \<in> set xs. upper (ticker a) = upper tk)"

definition without_ticker :: "string \<Rightarrow> 'a asset list \<Rightarrow> 'a asset list" where
  "without_ticker tk xs = filter (\<lambda>a. upper (ticker a) \<noteq> upper tk) xs"

text \<open>A client, and a provider whose transport always fails.\<close>

definition example_client :: FMPClient where
  "example_client = \<lparr>api_key = ''key'', base_url = ''https://financialmodelingprep.com/api/v3''\<rparr>"

definition failing_net :: "request \<Rightarrow> real quote list response" where
  "failing_net req = TransportError"

text \<open>
  A provider that answers every request with four quotes; the one for BTC reports the
  price 0.
\<close>

definition quoting_net :: "request \<Rightarrow> real quote list response" where
  "quoting_net req =
     Json [\<lparr>symbol = ''AAPL'', price = Some 150\<rparr>, \<lparr>symbol = ''BTC'', price = Some 0\<rparr>,
           \<lparr>symbol = ''VFIAX'', price = Some 20\<rparr>, \<lparr>symbol = ''BTCUSD'', price = Some 30000\<rparr>]"



definition crypto_only_state :: "real state" where
  "crypto_only_state =
     \<lparr>USER_DATA = [''u'' \<mapsto>
        \<lparr>stocks = [], mutual_funds = [],
         crypto = [\<lparr>ticker = ''ETH'', quantity = 3, avg_cost = 2000, purchase_date = None\<rparr>]\<rparr>],
      DATA_FILE = Absent, writes = 0\<rparr>"

section \<open>Vocabulary of the statements\<close>

text \<open>
  The definitions of this section are not taken from the source; the statements use them
  to say what the source does. The list of a class in a portfolio, and the portfolio with
  that list replaced; a list all of whose tickers are ASCII.
\<close>

fun holdings :: "asset_type \<Rightarrow> 'a Portfolio \<Rightarrow> 'a asset list" where
  "holdings Stock p = stocks p"
| "holdings Mutual_fund p = mutual_funds p"
| "holdings Crypto p = crypto p"

fun with_holdings :: "asset_type \<Rightarrow> 'a asset list \<Rightarrow> 'a Portfolio \<Rightarrow> 'a Portfolio" where
  "with_holdings Stock xs p = p\<lparr>stocks := xs\<rparr>"
| "with_holdings Mutual_fund xs p = p\<lparr>mutual_funds := xs\<rparr>"
| "with_holdings Crypto xs p = p\<lparr>crypto := xs\<rparr>"

definition ascii_tickers :: "'a asset list \<Rightarrow> bool" where
  "ascii_tickers xs = list_all (\<lambda>a. isascii (ticker a)) xs"

text \<open>
  The valuation as the specification words it, to be compared with \<open>summarize\<close>. The
  symbol under which a holding of a class is looked up; the holdings of a list that have a
  price, each with its price, in the order of the list, where having a price means that
  the mapping holds for the symbol a value that is neither null nor zero; the value, the
  investment and the detail line of a priced holding; and the report: the detail lines of
  the priced stocks, those of the priced crypto holdings, each class only when it has a
  priced holding, and the overview, whose totals are summed from zero over the priced
  stocks followed by the priced crypto holdings.
\<close>

definition symbol_of :: "string \<Rightarrow> 'a asset \<Rightarrow> string" where
  "symbol_of key a =
     (if key = ''crypto'' then upper (ticker a) @ ''USD'' else upper (ticker a))"

definition priced_holdings ::
  "string \<Rightarrow> (string \<rightharpoonup> ('a::zero) option) \<Rightarrow> 'a asset list \<Rightarrow> ('a asset \<times> 'a) list" where
  "priced_holdings key price_map assets =
     List.map_filter
       (\<lambda>a. case dict_get price_map (symbol_of key a) of
               None \<Rightarrow> None
             | Some p \<Rightarrow> if p = 0 then None else Some (a, p))
       assets"

definition value_of :: "('a::times) asset \<times> 'a \<Rightarrow> 'a" where
  "value_of h = quantity (fst h) * snd h"

definition investment_of :: "('a::times) asset \<times> 'a \<Rightarrow> 'a" where
  "investment_of h = quantity (fst h) * avg_cost (fst h)"

definition detail_of :: "('a::{minus,times}) asset \<times> 'a \<Rightarrow> 'a detail" where
  "detail_of h =
     \<lparr>detail_ticker = ticker (fst h), detail_quantity = quantity (fst h),
      current_price = snd h, current_value = value_of h,
      total_gain_loss = value_of h - investment_of h\<rparr>"

definition spec_report ::
  "(string \<rightharpoonup> 'a option) \<Rightarrow> 'a Portfolio \<Rightarrow> ('a::{zero,plus,minus,times}) summary_data" where
  "spec_report price_map p =
     (let sp = priced_holdings ''stocks'' price_map (stocks p);
          cp = priced_holdings ''crypto'' price_map (crypto p);
          tv = foldl (+) 0 (map value_of (sp @ cp));
          ti = foldl (+) 0 (map investment_of (sp @ cp))
      in (if sp = [] then [] else [(''stocks'', Details (map detail_of sp))])
         @ (if cp = [] then [] else [(''crypto'', Details (map detail_of cp))])
         @ [(''portfolio_overview'',
             Overview \<lparr>total_estimated_value = tv, total_investment = ti,
                       total_portfolio_gain_loss = tv - ti\<rparr>)])"

section \<open>Basic facts\<close>

lemma upper_char_idem: "upper_char (upper_char c) = upper_char c"
  unfolding upper_char_def Let_def by auto

lemma upper_idem: "upper (upper s) = upper s"
  by (simp add: upper_def upper_char_idem)

lemma with_holdings_same: "holdings k (with_holdings k xs p) = xs"
  by (cases k) simp_all

lemma with_holdings_other: "k' \<noteq> k \<Longrightarrow> holdings k' (with_holdings k xs p) = holdings k' p"
  by (cases k; cases k') simp_all

lemma with_holdings_id: "with_holdings k (holdings k p) p = p"
  by (cases k) simp_all

lemma key_lookup:
  "map_of (model_dump p) (asset_type_str k @ ''s'') = (if k = Crypto then None else Some (holdings k p))"
  by (cases k) (simp_all add: model_dump_def)

lemma cryptos_lookup: "map_of (model_dump p) ''cryptos'' = None"
  by (simp add: model_dump_def)

lemma validate_update:
  "k \<noteq> Crypto \<Longrightarrow>
     model_validate (dict_set (model_dump p) (asset_type_str k @ ''s'') xs) = with_holdings k xs p"
  by (cases k) (simp_all add: model_dump_def model_validate_def)

lemma filter_length_less_iff: "length (filter P xs) < length xs \<longleftrightarrow> (\<exists>x \<in> set xs. \<not> P x)"
  by (induction xs) (auto simp: less_Suc_eq_le)

lemma get_user_portfolio_table:
  "USER_DATA (snd (get_user_portfolio s u)) = (USER_DATA s)(u \<mapsto> fst (get_user_portfolio s u))"
  by (auto simp: get_user_portfolio_def split: option.splits)

lemma get_user_portfolio_file:
  "DATA_FILE (snd (get_user_portfolio s u)) = DATA_FILE s"
  "writes (snd (get_user_portfolio s u)) = writes s"
  by (auto simp: get_user_portfolio_def split: option.splits)

lemma get_user_portfolio_present:
  "USER_DATA s u = Some p \<Longrightarrow> get_user_portfolio s u = (p, s)"
  by (simp add: get_user_portfolio_def)

lemma get_user_portfolio_absent:
  "USER_DATA s u = None \<Longrightarrow>
     get_user_portfolio s u = (empty_portfolio, s\<lparr>USER_DATA := (USER_DATA s)(u \<mapsto> empty_portfolio)\<rparr>)"
  by (simp add: get_user_portfolio_def)

lemma get_user_portfolio_again:
  "get_user_portfolio (snd (get_user_portfolio s u)) u = get_user_portfolio s u"
  by (auto simp: get_user_portfolio_def split: option.splits)

lemma remove_crypto:
  "remove_asset_from_portfolio s u Crypto tk
     = (Inl (KeyError ''cryptos''), snd (get_user_portfolio s u))"
  by (simp add: remove_asset_from_portfolio_def Let_def split_beta cryptos_lookup)

lemma add_crypto_class:
  "add_asset_to_portfolio s u Crypto d
     = (Inl (KeyError ''cryptos''), snd (get_user_portfolio s u))"
  by (simp add: add_asset_to_portfolio_def Let_def split_beta cryptos_lookup)

lemma remove_hit:
  assumes "k \<noteq> Crypto" and "has_ticker tk (holdings k (fst (get_user_portfolio s u)))"
  shows "remove_asset_from_portfolio s u k tk =
     (Inr True, save_data ((snd (get_user_portfolio s u))
        \<lparr>USER_DATA := (USER_DATA (snd (get_user_portfolio s u)))
           (u \<mapsto> with_holdings k (without_ticker tk (holdings k (fst (get_user_portfolio s u))))
                   (fst (get_user_portfolio s u)))\<rparr>))"
proof -
  have "length (filter (\<lambda>a. upper (ticker a) \<noteq> upper tk) (holdings k (fst (get_user_portfolio s u))))
          < length (holdings k (fst (get_user_portfolio s u)))"
    using assms(2) by (simp add: filter_length_less_iff has_ticker_def)
  then show ?thesis
    using assms(1)
    by (simp add: remove_asset_from_portfolio_def Let_def split_beta key_lookup validate_update
        without_ticker_def)
qed

lemma remove_miss:
  assumes "k \<noteq> Crypto" and "\<not> has_ticker tk (holdings k (fst (get_user_portfolio s u)))"
  shows "remove_asset_from_portfolio s u k tk = (Inr False, snd (get_user_portfolio s u))"
proof -
  have "\<not> length (filter (\<lambda>a. upper (ticker a) \<noteq> upper tk) (holdings k (fst (get_user_portfolio s u))))
          < length (holdings k (fst (get_user_portfolio s u)))"
    using assms(2) by (simp add: filter_length_less_iff has_ticker_def)
  then show ?thesis
    using assms(1)
    by (simp add: remove_asset_from_portfolio_def Let_def split_beta key_lookup)
qed

lemma add_listed_class:
  assumes "k \<noteq> Crypto"
  shows "add_asset_to_portfolio s u k d =
     (Inr (), save_data ((snd (get_user_portfolio s u))
        \<lparr>USER_DATA := (USER_DATA (snd (get_user_portfolio s u)))
           (u \<mapsto> with_holdings k
              (if snd (update_existing (upper (ticker d)) d (holdings k (fst (get_user_portfolio s u))))
               then fst (update_existing (upper (ticker d)) d (holdings k (fst (get_user_portfolio s u))))
               else fst (update_existing (upper (ticker d)) d (holdings k (fst (get_user_portfolio s u)))) @ [d])
              (fst (get_user_portfolio s u)))\<rparr>))"
  using assms
  by (simp add: add_asset_to_portfolio_def Let_def split_beta key_lookup validate_update)

lemma has_ticker_upper: "has_ticker (upper tk) xs = has_ticker tk xs"
  by (simp add: has_ticker_def upper_idem)

lemma without_ticker_upper: "without_ticker (upper tk) xs = without_ticker tk xs"
  by (simp add: without_ticker_def upper_idem)

lemma saved_table:
  "USER_DATA (save_data ((snd (get_user_portfolio s u))
        \<lparr>USER_DATA := (USER_DATA (snd (get_user_portfolio s u)))(u \<mapsto> q)\<rparr>)) = (USER_DATA s)(u \<mapsto> q)"
  by (simp add: save_data_def get_user_portfolio_table)

lemma all_tickers_of_empty_iff:
  "all_tickers_of p = [] \<longleftrightarrow> stocks p = [] \<and> mutual_funds p = [] \<and> crypto p = []"
  by (simp add: all_tickers_of_def)

lemma value_assets_skip:
  assumes "dict_get pm (symbol_of key a) = None \<or> dict_get pm (symbol_of key a) = Some 0"
  shows "value_assets key cf pm (a # assets) acc = value_assets key cf pm assets acc"
  using assms by (cases acc) (auto simp: symbol_of_def Let_def)

lemma value_assets_take:
  assumes "dict_get pm (symbol_of key a) = Some pr" "pr \<noteq> 0"
  shows "value_assets key cf pm (a # assets) (tv, ti, ds) =
     value_assets key cf pm assets
       (tv + quantity a * pr, ti + quantity a * cf a,
        ds @ [\<lparr>detail_ticker = ticker a, detail_quantity = quantity a,
               current_price = pr, current_value = quantity a * pr,
               total_gain_loss = quantity a * pr - quantity a * cf a\<rparr>])"
  using assms by (auto simp: symbol_of_def Let_def)

lemma priced_holdings_Nil: "priced_holdings key pm [] = []"
  by (simp add: priced_holdings_def)

lemma priced_holdings_skip:
  assumes "dict_get pm (symbol_of key a) = None \<or> dict_get pm (symbol_of key a) = Some 0"
  shows "priced_holdings key pm (a # assets) = priced_holdings key pm assets"
  using assms by (auto simp: priced_holdings_def)

lemma priced_holdings_take:
  assumes "dict_get pm (symbol_of key a) = Some pr" "pr \<noteq> 0"
  shows "priced_holdings key pm (a # assets) = (a, pr) # priced_holdings key pm assets"
  using assms by (simp add: priced_holdings_def)

lemma value_assets_spec:
  "value_assets key avg_cost pm assets (tv, ti, ds) =
     (foldl (+) tv (map value_of (priced_holdings key pm assets)),
      foldl (+) ti (map investment_of (priced_holdings key pm assets)),
      ds @ map detail_of (priced_holdings key pm assets))"
proof (induction assets arbitrary: tv ti ds)
  case Nil
  show ?case by (simp add: priced_holdings_Nil)
next
  case (Cons a assets)
  show ?case
  proof (cases "dict_get pm (symbol_of key a)")
    case None
    then have s: "dict_get pm (symbol_of key a) = None \<or> dict_get pm (symbol_of key a) = Some 0"
      by simp
    show ?thesis
      unfolding value_assets_skip[OF s] priced_holdings_skip[OF s] by (rule Cons.IH)
  next
    case (Some pr)
    show ?thesis
    proof (cases "pr = 0")
      case True
      with Some have s: "dict_get pm (symbol_of key a) = None \<or> dict_get pm (symbol_of key a) = Some 0"
        by simp
      show ?thesis
        unfolding value_assets_skip[OF s] priced_holdings_skip[OF s] by (rule Cons.IH)
    next
      case False
      have v: "value_of (a, pr) = quantity a * pr"
        by (simp add: value_of_def)
      have i: "investment_of (a, pr) = quantity a * avg_cost a"
        by (simp add: investment_of_def)
      have d: "detail_of (a, pr) =
          \<lparr>detail_ticker = ticker a, detail_quantity = quantity a,
           current_price = pr, current_value = quantity a * pr,
           total_gain_loss = quantity a * pr - quantity a * avg_cost a\<rparr>"
        unfolding detail_of_def v i by simp
      show ?thesis
        unfolding value_assets_take[OF Some False] priced_holdings_take[OF Some False] Cons.IH
        by (simp add: v i d)
    qed
  qed
qed

lemma summarize_spec: "summarize pm p = spec_report pm p"
  by (simp add: summarize_def spec_report_def Let_def value_assets_spec)

lemma priced_holdings_zero:
  "priced_holdings key (pm(x \<mapsto> Some 0)) xs = priced_holdings key (pm(x := None)) xs"
  unfolding priced_holdings_def
  by (rule arg_cong[where f = "\<lambda>f. List.map_filter f xs"]) (auto simp: dict_get_def fun_eq_iff)

lemma priced_holdings_null:
  "priced_holdings key (pm(x \<mapsto> None)) xs = priced_holdings key (pm(x := None)) xs"
  unfolding priced_holdings_def
  by (rule arg_cong[where f = "\<lambda>f. List.map_filter f xs"]) (auto simp: dict_get_def fun_eq_iff)

lemma holder_present:
  assumes "all_tickers_of (fst (get_user_portfolio s u)) \<noteq> []"
  shows "snd (get_user_portfolio s u) = s"
proof (cases "USER_DATA s u")
  case None
  then have "fst (get_user_portfolio s u) = empty_portfolio"
    by (simp add: get_user_portfolio_def)
  with assms show ?thesis
    by (simp add: all_tickers_of_def empty_portfolio_def)
next
  case (Some p)
  then show ?thesis
    by (simp add: get_user_portfolio_def)
qed

lemma remove_asset_from_portfolio_cases:
  "remove_asset_from_portfolio s u k tk = (Inl (KeyError ''cryptos''), snd (get_user_portfolio s u))
   \<or> remove_asset_from_portfolio s u k tk = (Inr False, snd (get_user_portfolio s u))
   \<or> (\<exists>q. remove_asset_from_portfolio s u k tk =
         (Inr True, save_data ((snd (get_user_portfolio s u))
            \<lparr>USER_DATA := (USER_DATA (snd (get_user_portfolio s u)))(u \<mapsto> q)\<rparr>)))"
proof (cases "k = Crypto")
  case True
  then show ?thesis
    by (simp add: remove_crypto)
next
  case False
  show ?thesis
  proof (cases "has_ticker tk (holdings k (fst (get_user_portfolio s u)))")
    case True
    show ?thesis
      unfolding remove_hit[OF False True] by blast
  next
    case no: False
    show ?thesis
      unfolding remove_miss[OF False no] by simp
  qed
qed

section \<open>The holding store\<close>

subsection \<open>Removal\<close>

text \<open>
  C4, on the code. For the class 'crypto' \<^verbatim>\<open>remove_asset_from_portfolio\<close> removes
  nothing: the key it computes is 'cryptos', the read of \<^verbatim>\<open>portfolio['cryptos']\<close>
  raises \<^verbatim>\<open>KeyError\<close>, and the state is the one \<^verbatim>\<open>get_user_portfolio\<close> leaves.
  For the classes 'stock' and 'mutual_fund', and ASCII tickers, it keeps in the given
  class exactly the entries whose ticker differs from the given one once both are
  upper-cased, and leaves the other classes and the other users as they were. It returns
  true if and only if an entry matched; then the table is saved (one more write, and the
  file holds the new table). When nothing matched the file is not written and the state is
  the one \<^verbatim>\<open>get_user_portfolio\<close> leaves: unchanged for a user the table already has,
  and with the lazily created empty portfolio for a user it did not have.
\<close>

theorem remove_asset_from_portfolio_by_class:
  assumes "remove_asset_from_portfolio s u k tk = (r, s')"
  shows "(k = Crypto \<longrightarrow> r = Inl (KeyError ''cryptos'') \<and> s' = snd (get_user_portfolio s u))
       \<and> (k \<noteq> Crypto \<and> isascii tk \<and> ascii_tickers (holdings k (fst (get_user_portfolio s u))) \<longrightarrow>
            (\<exists>p'. USER_DATA s' = (USER_DATA s)(u \<mapsto> p')
               \<and> holdings k p' = filter (\<lambda>a. upper (ticker a) \<noteq> upper tk)
                                    (holdings k (fst (get_user_portfolio s u)))
               \<and> (\<forall>k'. k' \<noteq> k \<longrightarrow> holdings k' p' = holdings k' (fst (get_user_portfolio s u))))
          \<and> r = Inr (\<exists>a \<in> set (holdings k (fst (get_user_portfolio s u))). upper (ticker a) = upper tk)
          \<and> (r = Inr True \<longrightarrow> DATA_FILE s' = Document (USER_DATA s') \<and> writes s' = Suc (writes s))
          \<and> (r = Inr False \<longrightarrow> s' = snd (get_user_portfolio s u)
                \<and> DATA_FILE s' = DATA_FILE s \<and> writes s' = writes s)
          \<and> (r = Inr False \<longrightarrow> u \<in> dom (USER_DATA s) \<longrightarrow> s' = s))"
proof -
  define p where "p = fst (get_user_portfolio s u)"
  define s1 where "s1 = snd (get_user_portfolio s u)"
  let ?M = "\<exists>a \<in> set (holdings k p). upper (ticker a) = upper tk"
  let ?xs = "filter (\<lambda>a. upper (ticker a) \<noteq> upper tk) (holdings k p)"
  have c: "k = Crypto \<longrightarrow> r = Inl (KeyError ''cryptos'') \<and> s' = s1"
    using assms by (auto simp: remove_crypto s1_def)
  have l: "(\<exists>p'. USER_DATA s' = (USER_DATA s)(u \<mapsto> p') \<and> holdings k p' = ?xs
                \<and> (\<forall>k'. k' \<noteq> k \<longrightarrow> holdings k' p' = holdings k' p))
          \<and> r = Inr ?M
          \<and> (r = Inr True \<longrightarrow> DATA_FILE s' = Document (USER_DATA s') \<and> writes s' = Suc (writes s))
          \<and> (r = Inr False \<longrightarrow> s' = s1 \<and> DATA_FILE s' = DATA_FILE s \<and> writes s' = writes s)
          \<and> (r = Inr False \<longrightarrow> u \<in> dom (USER_DATA s) \<longrightarrow> s' = s)" if k: "k \<noteq> Crypto"
  proof (cases ?M)
    case True
    then have h: "has_ticker tk (holdings k (fst (get_user_portfolio s u)))"
      by (simp add: has_ticker_def p_def)
    from assms have r: "r = Inr True"
      and s': "s' = save_data (s1\<lparr>USER_DATA := (USER_DATA s1)(u \<mapsto> with_holdings k ?xs p)\<rparr>)"
      unfolding remove_hit[OF k h] by (simp_all add: p_def s1_def without_ticker_def)
    have t: "USER_DATA s' = (USER_DATA s)(u \<mapsto> with_holdings k ?xs p)"
      using s' by (simp add: save_data_def s1_def get_user_portfolio_table)
    have f: "DATA_FILE s' = Document (USER_DATA s')" "writes s' = Suc (writes s)"
      using s' by (simp_all add: save_data_def s1_def get_user_portfolio_file)
    have e: "\<exists>p'. USER_DATA s' = (USER_DATA s)(u \<mapsto> p') \<and> holdings k p' = ?xs
                \<and> (\<forall>k'. k' \<noteq> k \<longrightarrow> holdings k' p' = holdings k' p)"
      using t by (intro exI[of _ "with_holdings k ?xs p"])
        (simp add: with_holdings_same with_holdings_other)
    show ?thesis
      using True r e f by simp
  next
    case False
    then have h: "\<not> has_ticker tk (holdings k (fst (get_user_portfolio s u)))"
      by (simp add: has_ticker_def p_def)
    from assms have r: "r = Inr False" and s': "s' = s1"
      unfolding remove_miss[OF k h] by (simp_all add: s1_def)
    have xs: "?xs = holdings k p"
      using False by (auto simp: filter_id_conv)
    have t: "USER_DATA s' = (USER_DATA s)(u \<mapsto> p)"
      using s' by (simp add: s1_def p_def get_user_portfolio_table)
    have e: "\<exists>p'. USER_DATA s' = (USER_DATA s)(u \<mapsto> p') \<and> holdings k p' = ?xs
                \<and> (\<forall>k'. k' \<noteq> k \<longrightarrow> holdings k' p' = holdings k' p)"
      using t xs by (intro exI[of _ p]) simp
    have f: "DATA_FILE s' = DATA_FILE s" "writes s' = writes s"
      using s' by (simp_all add: s1_def get_user_portfolio_file)
    have same: "u \<in> dom (USER_DATA s) \<longrightarrow> s' = s"
      using s' by (auto simp: s1_def get_user_portfolio_present)
    show ?thesis
      using False r s' e f same by simp
  qed
  show ?thesis
    using c l unfolding p_def s1_def by blast
qed

theorem remove_asset_from_portfolio_by_class_witness:
  "fst (remove_asset_from_portfolio example_state ''u'' Crypto ''BTC'') = Inl (KeyError ''cryptos'')
   \<and> snd (remove_asset_from_portfolio example_state ''u'' Crypto ''BTC'') = example_state
   \<and> map ticker (crypto example_portfolio) = [''BTC'']
   \<and> isascii ''AAPL'' \<and> isascii ''MSFT'' \<and> ascii_tickers (stocks example_portfolio)
   \<and> fst (remove_asset_from_portfolio example_state ''u'' Stock ''AAPL'') = Inr True
   \<and> writes (snd (remove_asset_from_portfolio example_state ''u'' Stock ''AAPL'')) = Suc 0
   \<and> DATA_FILE (snd (remove_asset_from_portfolio example_state ''u'' Stock ''AAPL''))
       = Document (USER_DATA (snd (remove_asset_from_portfolio example_state ''u'' Stock ''AAPL'')))
   \<and> fst (remove_asset_from_portfolio example_state ''u'' Stock ''MSFT'') = Inr False
   \<and> snd (remove_asset_from_portfolio example_state ''u'' Stock ''MSFT'') = example_state"
proof -
  have p: "get_user_portfolio example_state ''u'' = (example_portfolio, example_state)"
    by (simp add: get_user_portfolio_def example_state_def)
  have asc: "isascii ''AAPL''" "isascii ''MSFT''" "ascii_tickers (stocks example_portfolio)"
    by code_simp+
  have hit: "\<exists>a \<in> set (stocks example_portfolio). upper (ticker a) = upper ''AAPL''"
    by code_simp
  have miss: "\<not> (\<exists>a \<in> set (stocks example_portfolio). upper (ticker a) = upper ''MSFT'')"
    by code_simp
  have present: "''u'' \<in> dom (USER_DATA example_state)"
    by (simp add: example_state_def)
  have w: "writes example_state = 0"
    by (simp add: example_state_def)
  have c: "map ticker (crypto example_portfolio) = [''BTC'']"
    by (simp add: example_portfolio_def)
  note t = remove_asset_from_portfolio_by_class [OF prod.collapse [symmetric]]
  have k: "fst (remove_asset_from_portfolio example_state ''u'' Crypto ''BTC'') = Inl (KeyError ''cryptos'')
       \<and> snd (remove_asset_from_portfolio example_state ''u'' Crypto ''BTC'') = example_state"
    using t [where s = example_state and u = "''u''" and k = Crypto and tk = "''BTC''"] by (simp add: p)
  have a: "fst (remove_asset_from_portfolio example_state ''u'' Stock ''AAPL'') = Inr True
     \<and> DATA_FILE (snd (remove_asset_from_portfolio example_state ''u'' Stock ''AAPL''))
       = Document (USER_DATA (snd (remove_asset_from_portfolio example_state ''u'' Stock ''AAPL'')))
     \<and> writes (snd (remove_asset_from_portfolio example_state ''u'' Stock ''AAPL''))
       = Suc (writes example_state)"
    using t [where s = example_state and u = "''u''" and k = Stock and tk = "''AAPL''"] hit asc by (simp add: p)
  have b: "fst (remove_asset_from_portfolio example_state ''u'' Stock ''MSFT'') = Inr False
     \<and> snd (remove_asset_from_portfolio example_state ''u'' Stock ''MSFT'') = example_state"
    using t [where s = example_state and u = "''u''" and k = Stock and tk = "''MSFT''"] miss asc present by (simp add: p)
  show ?thesis
    using k a b asc c w by simp
qed

text \<open>
  For a user the table does not have, a removal that finds nothing returns false, yet the
  table gains the user's empty portfolio.
\<close>

lemma remove_absent_user_creates:
  "fst (remove_asset_from_portfolio empty_state ''u'' Stock ''AAPL'') = Inr False
   \<and> USER_DATA empty_state ''u'' = None
   \<and> USER_DATA (snd (remove_asset_from_portfolio empty_state ''u'' Stock ''AAPL'')) ''u''
       = Some empty_portfolio
   \<and> snd (remove_asset_from_portfolio empty_state ''u'' Stock ''AAPL'') \<noteq> empty_state"
proof -
  have g: "get_user_portfolio empty_state ''u''
      = (empty_portfolio, empty_state\<lparr>USER_DATA := [''u'' \<mapsto> empty_portfolio]\<rparr>)"
    by (simp add: get_user_portfolio_def empty_state_def)
  have m: "\<not> has_ticker ''AAPL'' (holdings Stock (fst (get_user_portfolio empty_state ''u'')))"
    by (simp add: g has_ticker_def empty_portfolio_def)
  have r: "remove_asset_from_portfolio empty_state ''u'' Stock ''AAPL''
      = (Inr False, empty_state\<lparr>USER_DATA := [''u'' \<mapsto> empty_portfolio]\<rparr>)"
    using remove_miss[OF _ m] by (simp add: g)
  have b: "USER_DATA empty_state ''u'' = None"
    by (simp add: empty_state_def)
  have c: "USER_DATA (snd (remove_asset_from_portfolio empty_state ''u'' Stock ''AAPL'')) ''u''
       = Some empty_portfolio"
    by (simp add: r)
  from b c have "snd (remove_asset_from_portfolio empty_state ''u'' Stock ''AAPL'') \<noteq> empty_state"
    by auto
  with r b c show ?thesis by simp
qed

subsection \<open>The persisted file\<close>

text \<open>
  C10. For a user the table does not have, \<^verbatim>\<open>get_user_portfolio\<close> returns the empty
  portfolio and puts it into the table, and never writes the file. Loading and summarizing
  leave the file and the count of writes as they were. So does every call of
  \<^verbatim>\<open>remove_asset_from_portfolio\<close> that does not return true, and every call of
  \<^verbatim>\<open>add_asset_to_portfolio\<close> that does not return. A removal that returns true and
  an addition that returns write the file once, and the file then holds the table. The
  addition returns for the classes 'stock' and 'mutual_fund'.
\<close>

theorem persisted_file_frame:
  fixes s :: "('a::{zero,plus,minus,times}) state"
  shows
  "(USER_DATA s u = None \<longrightarrow>
      get_user_portfolio s u
        = (empty_portfolio, s\<lparr>USER_DATA := (USER_DATA s)(u \<mapsto> empty_portfolio)\<rparr>))
   \<and> DATA_FILE (snd (get_user_portfolio s u)) = DATA_FILE s
   \<and> writes (snd (get_user_portfolio s u)) = writes s
   \<and> DATA_FILE (load_data s) = DATA_FILE s
   \<and> writes (load_data s) = writes s
   \<and> DATA_FILE (snd (snd (get_portfolio_summary fmp net s u))) = DATA_FILE s
   \<and> writes (snd (snd (get_portfolio_summary fmp net s u))) = writes s
   \<and> (fst (remove_asset_from_portfolio s u k tk) \<noteq> Inr True \<longrightarrow>
        DATA_FILE (snd (remove_asset_from_portfolio s u k tk)) = DATA_FILE s
        \<and> writes (snd (remove_asset_from_portfolio s u k tk)) = writes s)
   \<and> (fst (remove_asset_from_portfolio s u k tk) = Inr True \<longrightarrow>
        DATA_FILE (snd (remove_asset_from_portfolio s u k tk))
          = Document (USER_DATA (snd (remove_asset_from_portfolio s u k tk)))
        \<and> writes (snd (remove_asset_from_portfolio s u k tk)) = Suc (writes s))
   \<and> (fst (add_asset_to_portfolio s u k d) \<noteq> Inr () \<longrightarrow>
        DATA_FILE (snd (add_asset_to_portfolio s u k d)) = DATA_FILE s
        \<and> writes (snd (add_asset_to_portfolio s u k d)) = writes s)
   \<and> (fst (add_asset_to_portfolio s u k d) = Inr () \<longrightarrow>
        DATA_FILE (snd (add_asset_to_portfolio s u k d))
          = Document (USER_DATA (snd (add_asset_to_portfolio s u k d)))
        \<and> writes (snd (add_asset_to_portfolio s u k d)) = Suc (writes s))
   \<and> (fst (add_asset_to_portfolio s u k d) = Inr () \<longleftrightarrow> k \<noteq> Crypto)"
proof -
  have g: "USER_DATA s u = None \<longrightarrow>
      get_user_portfolio s u
        = (empty_portfolio, s\<lparr>USER_DATA := (USER_DATA s)(u \<mapsto> empty_portfolio)\<rparr>)"
    by (simp add: get_user_portfolio_def)
  have l: "DATA_FILE (load_data s) = DATA_FILE s \<and> writes (load_data s) = writes s"
    by (simp add: load_data_def split: data_file.splits)
  have sm: "snd (snd (get_portfolio_summary fmp net s u)) = snd (get_user_portfolio s u)"
    by (simp add: get_portfolio_summary_def Let_def split_beta split: option.splits list.splits)
  have rm: "(fst (remove_asset_from_portfolio s u k tk) \<noteq> Inr True \<longrightarrow>
        DATA_FILE (snd (remove_asset_from_portfolio s u k tk)) = DATA_FILE s
        \<and> writes (snd (remove_asset_from_portfolio s u k tk)) = writes s)
     \<and> (fst (remove_asset_from_portfolio s u k tk) = Inr True \<longrightarrow>
        DATA_FILE (snd (remove_asset_from_portfolio s u k tk))
          = Document (USER_DATA (snd (remove_asset_from_portfolio s u k tk)))
        \<and> writes (snd (remove_asset_from_portfolio s u k tk)) = Suc (writes s))"
    using remove_asset_from_portfolio_cases [of s u k tk]
    by (auto simp: save_data_def get_user_portfolio_file)
  have ad: "(fst (add_asset_to_portfolio s u k d) \<noteq> Inr () \<longrightarrow>
        DATA_FILE (snd (add_asset_to_portfolio s u k d)) = DATA_FILE s
        \<and> writes (snd (add_asset_to_portfolio s u k d)) = writes s)
     \<and> (fst (add_asset_to_portfolio s u k d) = Inr () \<longrightarrow>
        DATA_FILE (snd (add_asset_to_portfolio s u k d))
          = Document (USER_DATA (snd (add_asset_to_portfolio s u k d)))
        \<and> writes (snd (add_asset_to_portfolio s u k d)) = Suc (writes s))
     \<and> (fst (add_asset_to_portfolio s u k d) = Inr () \<longleftrightarrow> k \<noteq> Crypto)"
  proof (cases "k = Crypto")
    case True
    then show ?thesis
      by (simp add: add_crypto_class get_user_portfolio_file)
  next
    case False
    show ?thesis
      unfolding add_listed_class[OF False]
      using False by (simp add: save_data_def get_user_portfolio_file)
  qed
  have sf: "DATA_FILE (snd (snd (get_portfolio_summary fmp net s u))) = DATA_FILE s
      \<and> writes (snd (snd (get_portfolio_summary fmp net s u))) = writes s"
    by (simp add: sm get_user_portfolio_file)
  have gf: "DATA_FILE (snd (get_user_portfolio s u)) = DATA_FILE s
      \<and> writes (snd (get_user_portfolio s u)) = writes s"
    by (simp add: get_user_portfolio_file)
  show ?thesis
    using g gf l sf rm ad by blast
qed

theorem persisted_file_frame_witness:
  "USER_DATA empty_state ''u'' = None
   \<and> get_user_portfolio empty_state ''u''
       = (empty_portfolio, empty_state\<lparr>USER_DATA := (USER_DATA empty_state)(''u'' \<mapsto> empty_portfolio)\<rparr>)
   \<and> DATA_FILE (snd (get_user_portfolio empty_state ''u'')) = Absent
   \<and> writes (snd (get_user_portfolio empty_state ''u'')) = 0
   \<and> fst (remove_asset_from_portfolio empty_state ''u'' Stock ''AAPL'') \<noteq> Inr True
   \<and> DATA_FILE (snd (remove_asset_from_portfolio empty_state ''u'' Stock ''AAPL'')) = Absent
   \<and> fst (add_asset_to_portfolio empty_state ''u'' Stock
        \<lparr>ticker = ''AAPL'', quantity = 10, avg_cost = 100, purchase_date = None\<rparr>) = Inr ()
   \<and> writes (snd (add_asset_to_portfolio empty_state ''u'' Stock
        \<lparr>ticker = ''AAPL'', quantity = 10, avg_cost = 100, purchase_date = None\<rparr>)) = Suc 0"
proof -
  have a: "USER_DATA empty_state ''u'' = None"
    by (simp add: empty_state_def)
  have f: "DATA_FILE empty_state = Absent" "writes empty_state = 0"
    by (simp_all add: empty_state_def)
  have g: "fst (get_user_portfolio empty_state ''u'') = empty_portfolio"
    by (simp add: get_user_portfolio_def empty_state_def)
  have h: "\<not> has_ticker ''AAPL'' (holdings Stock (fst (get_user_portfolio empty_state ''u'')))"
    by (simp add: g has_ticker_def empty_portfolio_def)
  have m: "fst (remove_asset_from_portfolio empty_state ''u'' Stock ''AAPL'') \<noteq> Inr True"
    using remove_miss[OF _ h] by simp
  have k: "Stock \<noteq> Crypto"
    by simp
  show ?thesis
    using persisted_file_frame [where s = empty_state and u = "''u''" and k = Stock
        and tk = "''AAPL''" and fmp = example_client and net = failing_net
        and d = "\<lparr>ticker = ''AAPL'', quantity = 10, avg_cost = 100, purchase_date = None\<rparr>"]
      a f m k
    by simp
qed

subsection \<open>Adding\<close>

text \<open>
  C2, at a ticker given in lower case. \<^verbatim>\<open>add_asset_to_portfolio\<close> upper-cases the
  ticker of the new holding for the comparison only, and compares it with the ticker of
  each stored entry as stored. The first \<^verbatim>\<open>add_stock\<close> of \<^verbatim>\<open>aapl\<close> for a new user
  stores the entry under \<^verbatim>\<open>aapl\<close>; the second looks for \<^verbatim>\<open>AAPL\<close>, finds no entry
  with that ticker and appends: the class then holds two entries for the ticker, the old
  one with quantity 1 and the new one with quantity 2. Both calls return. For the class
  'crypto' no entry is left at all: \<^verbatim>\<open>add_crypto\<close> raises \<^verbatim>\<open>KeyError\<close> for every
  input, before the table is assigned or saved.
\<close>

theorem add_twice_lower_case_two_entries:
  "fst (add_stock empty_state ''u'' ''aapl'' 1 100 None) = Inr ()
   \<and> fst (add_stock (snd (add_stock empty_state ''u'' ''aapl'' 1 100 None)) ''u'' ''aapl'' 2 100 None)
       = Inr ()
   \<and> USER_DATA (snd (add_stock (snd (add_stock empty_state ''u'' ''aapl'' 1 100 None))
        ''u'' ''aapl'' 2 100 None)) ''u''
     = Some \<lparr>stocks = [\<lparr>ticker = ''aapl'', quantity = 1, avg_cost = 100, purchase_date = None\<rparr>,
                        \<lparr>ticker = ''aapl'', quantity = 2, avg_cost = 100, purchase_date = None\<rparr>],
              mutual_funds = [], crypto = []\<rparr>
   \<and> add_crypto s u tk qty cost pdate
     = (Inl (KeyError ''cryptos''), snd (get_user_portfolio s u))"
proof -
  have u: "upper ''aapl'' = ''AAPL''"
    by code_simp
  have a: "add_stock empty_state ''u'' ''aapl'' 1 100 None
     = (Inr (), \<lparr>USER_DATA = [''u'' \<mapsto>
          \<lparr>stocks = [\<lparr>ticker = ''aapl'', quantity = 1, avg_cost = 100, purchase_date = None\<rparr>],
           mutual_funds = [], crypto = []\<rparr>],
        DATA_FILE = Document [''u'' \<mapsto>
          \<lparr>stocks = [\<lparr>ticker = ''aapl'', quantity = 1, avg_cost = 100, purchase_date = None\<rparr>],
           mutual_funds = [], crypto = []\<rparr>],
        writes = Suc 0\<rparr>)"
    by (simp add: add_stock_def add_asset_to_portfolio_def get_user_portfolio_def
        model_dump_def model_validate_def empty_state_def empty_portfolio_def save_data_def Let_def u)
  have b: "fst (add_stock (snd (add_stock empty_state ''u'' ''aapl'' 1 100 None)) ''u'' ''aapl'' 2 100 None)
       = Inr ()
     \<and> USER_DATA (snd (add_stock (snd (add_stock empty_state ''u'' ''aapl'' 1 100 None))
        ''u'' ''aapl'' 2 100 None)) ''u''
     = Some \<lparr>stocks = [\<lparr>ticker = ''aapl'', quantity = 1, avg_cost = 100, purchase_date = None\<rparr>,
                        \<lparr>ticker = ''aapl'', quantity = 2, avg_cost = 100, purchase_date = None\<rparr>],
              mutual_funds = [], crypto = []\<rparr>"
    unfolding a
    by (simp add: add_stock_def add_asset_to_portfolio_def get_user_portfolio_def
        model_dump_def model_validate_def save_data_def Let_def u)
  have c: "add_crypto s u tk qty cost pdate
     = (Inl (KeyError ''cryptos''), snd (get_user_portfolio s u))"
    by (simp add: add_crypto_def add_crypto_class)
  show ?thesis
    using a b c by simp
qed

text \<open>
  C3, at a ticker given in lower case. The holding that \<^verbatim>\<open>add_asset_to_portfolio\<close>
  stores is the one it was given: after \<^verbatim>\<open>add_stock\<close> of \<^verbatim>\<open>aapl\<close> for a new user the
  stored ticker is \<^verbatim>\<open>aapl\<close>, which is not its upper-case form. And the stored entries
  are not matched without regard to case: for the user of the example, who holds the
  stock \<^verbatim>\<open>aapl\<close>, \<^verbatim>\<open>add_stock\<close> of \<^verbatim>\<open>AAPL\<close> appends a third entry instead of
  replacing the first.
\<close>

theorem add_stores_ticker_as_given:
  "USER_DATA (snd (add_stock empty_state ''u'' ''aapl'' 10 100 None)) ''u''
     = Some \<lparr>stocks = [\<lparr>ticker = ''aapl'', quantity = 10, avg_cost = 100, purchase_date = None\<rparr>],
              mutual_funds = [], crypto = []\<rparr>
   \<and> ''aapl'' \<noteq> upper ''aapl''
   \<and> map ticker (stocks (fst (get_user_portfolio
        (snd (add_stock example_state ''u'' ''AAPL'' 5 120 None)) ''u'')))
     = [''aapl'', ''BTC'', ''AAPL'']"
proof -
  have u: "upper ''aapl'' = ''AAPL''" "upper ''AAPL'' = ''AAPL''"
    by code_simp+
  have a: "USER_DATA (snd (add_stock empty_state ''u'' ''aapl'' 10 100 None)) ''u''
     = Some \<lparr>stocks = [\<lparr>ticker = ''aapl'', quantity = 10, avg_cost = 100, purchase_date = None\<rparr>],
              mutual_funds = [], crypto = []\<rparr>"
    by (simp add: add_stock_def add_asset_to_portfolio_def get_user_portfolio_def
        model_dump_def model_validate_def empty_state_def empty_portfolio_def save_data_def Let_def u)
  have b: "map ticker (stocks (fst (get_user_portfolio
        (snd (add_stock example_state ''u'' ''AAPL'' 5 120 None)) ''u''))) = [''aapl'', ''BTC'', ''AAPL'']"
    by (simp add: add_stock_def add_asset_to_portfolio_def get_user_portfolio_def
        model_dump_def model_validate_def example_state_def example_portfolio_def save_data_def
        Let_def u)
  show ?thesis
    using a b u by simp
qed

section \<open>The market data gateway\<close>

text \<open>
  C6, on the code. \<^verbatim>\<open>get_quotes\<close> returns the empty list for no symbols, without a
  request. When the transport fails or the status is not 2xx, \<^verbatim>\<open>_make_request\<close>
  returns \<^verbatim>\<open>None\<close> and \<^verbatim>\<open>get_quotes\<close> hands it on: the result is
  \<^verbatim>\<open>None\<close>, not the empty list.
\<close>

theorem get_quotes_failure_is_none:
  "get_quotes fmp net [] = (Some [], [])
   \<and> fst (get_quotes fmp (\<lambda>req. TransportError) [''AAPL'']) = None
   \<and> fst (get_quotes fmp (\<lambda>req. HTTPStatusError 500) [''AAPL'']) = None
   \<and> fst (get_quotes fmp (\<lambda>req. TransportError) [''AAPL'']) \<noteq> Some []"
  by (simp add: get_quotes_def make_request_def)

section \<open>The tools\<close>

subsection \<open>remove\_asset\<close>

text \<open>
  C9, on the code, for ASCII tickers. \<^verbatim>\<open>remove_asset\<close> tries stocks first. When the
  stocks hold the ticker they lose the matching entries, the crypto holdings and the funds
  stay as they were (also when they hold the ticker), the table is saved and the message
  names the stock. When the stocks do not hold the ticker the next step, the removal from
  the class 'crypto', raises \<^verbatim>\<open>KeyError\<close>: nothing is removed from the crypto
  holdings or the funds, and neither their messages nor the message that the ticker was
  not found is ever returned.
\<close>

theorem remove_asset_stock_or_key_error:
  assumes "isascii tk" and "ascii_tickers (stocks (fst (get_user_portfolio s u)))"
  shows "(has_ticker tk (stocks (fst (get_user_portfolio s u))) \<longrightarrow>
            remove_asset s u tk =
              (Inr (''Done. I've removed stock '' @ upper tk @ '' from your portfolio.''),
               save_data (s\<lparr>USER_DATA := (USER_DATA s)(u \<mapsto> (fst (get_user_portfolio s u))
                  \<lparr>stocks := without_ticker tk (stocks (fst (get_user_portfolio s u)))\<rparr>)\<rparr>)))
       \<and> (\<not> has_ticker tk (stocks (fst (get_user_portfolio s u))) \<longrightarrow>
            remove_asset s u tk = (Inl (KeyError ''cryptos''), snd (get_user_portfolio s u)))"
proof -
  define p where "p = fst (get_user_portfolio s u)"
  define s1 where "s1 = snd (get_user_portfolio s u)"
  have k: "Stock \<noteq> Crypto"
    by simp
  have hit: "remove_asset s u tk =
      (Inr (''Done. I've removed stock '' @ upper tk @ '' from your portfolio.''),
       save_data (s\<lparr>USER_DATA := (USER_DATA s)(u \<mapsto> p\<lparr>stocks := without_ticker tk (stocks p)\<rparr>)\<rparr>))"
    if h: "has_ticker tk (stocks p)"
  proof -
    from h have "stocks p \<noteq> []"
      by (auto simp: has_ticker_def)
    then have "all_tickers_of (fst (get_user_portfolio s u)) \<noteq> []"
      by (simp add: all_tickers_of_def p_def)
    then have same: "s1 = s"
      unfolding s1_def by (rule holder_present)
    have h': "has_ticker (upper tk) (holdings Stock (fst (get_user_portfolio s u)))"
      using h by (simp add: has_ticker_upper p_def)
    show ?thesis
      unfolding remove_asset_def Let_def remove_hit[OF k h']
      using same by (simp add: without_ticker_upper p_def s1_def)
  qed
  have miss: "remove_asset s u tk = (Inl (KeyError ''cryptos''), s1)"
    if h: "\<not> has_ticker tk (stocks p)"
  proof -
    have h': "\<not> has_ticker (upper tk) (holdings Stock (fst (get_user_portfolio s u)))"
      using h by (simp add: has_ticker_upper p_def)
    show ?thesis
      unfolding remove_asset_def Let_def remove_miss[OF k h']
      by (simp add: remove_crypto get_user_portfolio_again s1_def)
  qed
  show ?thesis
    using hit miss unfolding p_def s1_def by blast
qed

theorem remove_asset_stock_or_key_error_witness:
  "isascii ''btc'' \<and> isascii ''eth''
   \<and> ascii_tickers (stocks (fst (get_user_portfolio example_state ''u'')))
   \<and> ascii_tickers (stocks (fst (get_user_portfolio crypto_only_state ''u'')))
   \<and> fst (remove_asset example_state ''u'' ''btc'')
       = Inr ''Done. I've removed stock BTC from your portfolio.''
   \<and> (\<exists>p'. USER_DATA (snd (remove_asset example_state ''u'' ''btc'')) ''u'' = Some p'
        \<and> map ticker (stocks p') = [''aapl'']
        \<and> map ticker (crypto p') = [''BTC'']
        \<and> map ticker (mutual_funds p') = [''VFIAX''])
   \<and> map ticker (crypto (fst (get_user_portfolio crypto_only_state ''u''))) = [''ETH'']
   \<and> remove_asset crypto_only_state ''u'' ''eth'' = (Inl (KeyError ''cryptos''), crypto_only_state)"
proof -
  have p: "get_user_portfolio example_state ''u'' = (example_portfolio, example_state)"
    by (simp add: get_user_portfolio_def example_state_def)
  have q: "get_user_portfolio crypto_only_state ''u'' =
      (\<lparr>stocks = [], mutual_funds = [],
        crypto = [\<lparr>ticker = ''ETH'', quantity = 3, avg_cost = 2000, purchase_date = None\<rparr>]\<rparr>,
       crypto_only_state)"
    by (simp add: get_user_portfolio_def crypto_only_state_def)
  have asc: "isascii ''btc''" "isascii ''eth''" "ascii_tickers (stocks example_portfolio)"
    by code_simp+
  have asc2: "ascii_tickers (stocks (fst (get_user_portfolio crypto_only_state ''u'')))"
    by (simp add: q ascii_tickers_def)
  have h: "has_ticker ''btc'' (stocks example_portfolio)"
    by code_simp
  have n: "\<not> has_ticker ''eth'' (stocks (fst (get_user_portfolio crypto_only_state ''u'')))"
    by (simp add: q has_ticker_def)
  have u: "upper ''btc'' = ''BTC''"
    by code_simp
  have w: "map ticker (without_ticker ''btc'' (stocks example_portfolio)) = [''aapl'']"
    by code_simp
  have c: "map ticker (crypto example_portfolio) = [''BTC'']"
    "map ticker (mutual_funds example_portfolio) = [''VFIAX'']"
    by (simp_all add: example_portfolio_def)
  have a: "remove_asset example_state ''u'' ''btc'' =
      (Inr (''Done. I've removed stock '' @ upper ''btc'' @ '' from your portfolio.''),
       save_data (example_state\<lparr>USER_DATA := (USER_DATA example_state)(''u'' \<mapsto>
          example_portfolio\<lparr>stocks := without_ticker ''btc'' (stocks example_portfolio)\<rparr>)\<rparr>))"
    using remove_asset_stock_or_key_error [where s = example_state and u = "''u''" and tk = "''btc''"]
      asc h by (simp add: p)
  have b: "remove_asset crypto_only_state ''u'' ''eth'' = (Inl (KeyError ''cryptos''), crypto_only_state)"
    using remove_asset_stock_or_key_error [where s = crypto_only_state and u = "''u''"
        and tk = "''eth''", OF asc(2) asc2] n
    by (simp add: q)
  have e: "\<exists>p'. USER_DATA (snd (remove_asset example_state ''u'' ''btc'')) ''u'' = Some p'
        \<and> map ticker (stocks p') = [''aapl'']
        \<and> map ticker (crypto p') = [''BTC'']
        \<and> map ticker (mutual_funds p') = [''VFIAX'']"
    unfolding a using w c by (simp add: save_data_def)
  have m: "fst (remove_asset example_state ''u'' ''btc'')
       = Inr ''Done. I've removed stock BTC from your portfolio.''"
    unfolding a by (simp add: u)
  have t: "map ticker (crypto (fst (get_user_portfolio crypto_only_state ''u''))) = [''ETH'']"
    by (simp add: q)
  show ?thesis
    using asc asc2 m e t b by (simp add: p)
qed

subsection \<open>get\_portfolio\_summary: the two early returns\<close>

text \<open>
  C5. When the user's portfolio, as \<^verbatim>\<open>get_user_portfolio\<close> returns it, has no
  holding in any of the three classes, the summary is the empty-portfolio message and no
  request is sent to the provider.
\<close>

theorem empty_portfolio_summary:
  assumes "stocks (fst (get_user_portfolio s u)) = []"
    and "mutual_funds (fst (get_user_portfolio s u)) = []"
    and "crypto (fst (get_user_portfolio s u)) = []"
  shows "get_portfolio_summary fmp net s u
           = (Text empty_message, [], snd (get_user_portfolio s u))"
  using assms
  by (simp add: get_portfolio_summary_def Let_def split_beta all_tickers_of_empty_iff)

theorem empty_portfolio_summary_witness:
  "stocks (fst (get_user_portfolio empty_state ''u'')) = []
   \<and> mutual_funds (fst (get_user_portfolio empty_state ''u'')) = []
   \<and> crypto (fst (get_user_portfolio empty_state ''u'')) = []
   \<and> fst (get_portfolio_summary example_client quoting_net empty_state ''u'') = Text empty_message
   \<and> fst (snd (get_portfolio_summary example_client quoting_net empty_state ''u'')) = []"
proof -
  have p: "fst (get_user_portfolio empty_state ''u'') = empty_portfolio"
    by (simp add: get_user_portfolio_def empty_state_def)
  have e: "stocks (fst (get_user_portfolio empty_state ''u'')) = []"
    "mutual_funds (fst (get_user_portfolio empty_state ''u'')) = []"
    "crypto (fst (get_user_portfolio empty_state ''u'')) = []"
    by (simp_all add: p empty_portfolio_def)
  show ?thesis
    using empty_portfolio_summary [OF e, of example_client quoting_net] e
    by simp
qed

text \<open>
  C7. When the user has a holding and the quote fetch returns \<^verbatim>\<open>None\<close> or no
  quote, the summary is the unavailable message, the requests are those of the one
  fetch, and the state is unchanged (the user is in the table already, so nothing is
  created).
\<close>

theorem quote_failure_summary:
  assumes "stocks (fst (get_user_portfolio s u)) \<noteq> []
           \<or> mutual_funds (fst (get_user_portfolio s u)) \<noteq> []
           \<or> crypto (fst (get_user_portfolio s u)) \<noteq> []"
    and "fst (get_quotes fmp net (all_tickers_of (fst (get_user_portfolio s u)))) = None
         \<or> fst (get_quotes fmp net (all_tickers_of (fst (get_user_portfolio s u)))) = Some []"
  shows "get_portfolio_summary fmp net s u
           = (Text unavailable_message,
              snd (get_quotes fmp net (all_tickers_of (fst (get_user_portfolio s u)))),
              snd (get_user_portfolio s u))
         \<and> snd (get_user_portfolio s u) = s"
proof -
  have ne: "all_tickers_of (fst (get_user_portfolio s u)) \<noteq> []"
    using assms(1) by (simp add: all_tickers_of_empty_iff)
  have r: "get_portfolio_summary fmp net s u
           = (Text unavailable_message,
              snd (get_quotes fmp net (all_tickers_of (fst (get_user_portfolio s u)))),
              snd (get_user_portfolio s u))"
    using ne assms(2)
    by (auto simp: get_portfolio_summary_def Let_def split_beta)
  have "USER_DATA s u \<noteq> None"
  proof
    assume "USER_DATA s u = None"
    then have "fst (get_user_portfolio s u) = empty_portfolio"
      by (simp add: get_user_portfolio_def)
    with assms(1) show False
      by (simp add: empty_portfolio_def)
  qed
  then have "snd (get_user_portfolio s u) = s"
    by (auto simp: get_user_portfolio_def)
  with r show ?thesis by simp
qed

theorem quote_failure_summary_witness:
  "fst (get_portfolio_summary example_client failing_net example_state ''u'')
     = Text unavailable_message
   \<and> snd (snd (get_portfolio_summary example_client failing_net example_state ''u''))
     = example_state
   \<and> length (fst (snd (get_portfolio_summary example_client failing_net example_state ''u''))) = 1"
proof -
  have p: "fst (get_user_portfolio example_state ''u'') = example_portfolio"
    by (simp add: get_user_portfolio_def example_state_def)
  have h: "stocks (fst (get_user_portfolio example_state ''u'')) \<noteq> []
           \<or> mutual_funds (fst (get_user_portfolio example_state ''u'')) \<noteq> []
           \<or> crypto (fst (get_user_portfolio example_state ''u'')) \<noteq> []"
    by (simp add: p example_portfolio_def)
  have t: "all_tickers_of example_portfolio \<noteq> []"
    by (simp add: all_tickers_of_def example_portfolio_def)
  have q: "fst (get_quotes example_client failing_net (all_tickers_of example_portfolio)) = None"
    "length (snd (get_quotes example_client failing_net (all_tickers_of example_portfolio))) = 1"
    using t by (simp_all add: get_quotes_def make_request_def failing_net_def)
  have f: "fst (get_quotes example_client failing_net
              (all_tickers_of (fst (get_user_portfolio example_state ''u'')))) = None
         \<or> fst (get_quotes example_client failing_net
              (all_tickers_of (fst (get_user_portfolio example_state ''u'')))) = Some []"
    using q(1) by (simp add: p)
  show ?thesis
    using quote_failure_summary [OF h f] q(2) by (simp add: p)
qed

subsection \<open>get\_portfolio\_summary: the valuation\<close>




text \<open>
  C8. A price of zero, and a null price, count as no price. The summary for a mapping that
  holds zero, or null, for a symbol is the summary for the mapping without the symbol.
  And in the loop a holding with an ASCII ticker whose symbol has no price, a null price
  or the price zero leaves the running totals and the detail list as they were.
\<close>

theorem zero_or_null_price_as_missing:
  "summarize (pm(x \<mapsto> Some 0)) p = summarize (pm(x := None)) p
   \<and> summarize (pm(x \<mapsto> None)) p = summarize (pm(x := None)) p
   \<and> (isascii (ticker a)
        \<and> (dict_get pm (symbol_of key a) = None \<or> dict_get pm (symbol_of key a) = Some 0) \<longrightarrow>
          value_assets key cost_field pm (a # assets) acc = value_assets key cost_field pm assets acc)"
proof -
  have z: "summarize (pm(x \<mapsto> Some 0)) p = summarize (pm(x := None)) p"
    by (simp add: summarize_spec spec_report_def priced_holdings_zero)
  have n: "summarize (pm(x \<mapsto> None)) p = summarize (pm(x := None)) p"
    by (simp add: summarize_spec spec_report_def priced_holdings_null)
  show ?thesis
    using z n value_assets_skip [of pm key a cost_field assets acc] by blast
qed

theorem zero_or_null_price_as_missing_witness:
  "isascii ''BTC''
   \<and> dict_get [''AAPL'' \<mapsto> Some 150, ''BTC'' \<mapsto> Some 0]
        (symbol_of ''stocks'' \<lparr>ticker = ''BTC'', quantity = 2::real, avg_cost = 50, purchase_date = None\<rparr>)
       = Some (0::real)
   \<and> value_assets ''stocks'' avg_cost [''AAPL'' \<mapsto> Some 150, ''BTC'' \<mapsto> Some 0]
        [\<lparr>ticker = ''BTC'', quantity = 2, avg_cost = 50, purchase_date = None\<rparr>] (0, 0, [])
       = (0::real, 0, [])
   \<and> summarize [''AAPL'' \<mapsto> Some 150, ''BTC'' \<mapsto> Some 0] example_portfolio
       = summarize [''AAPL'' \<mapsto> Some 150] example_portfolio"
proof -
  have asc: "isascii ''BTC''"
    by code_simp
  have u: "upper ''BTC'' = ''BTC''"
    by code_simp
  have d: "dict_get [''AAPL'' \<mapsto> Some 150, ''BTC'' \<mapsto> Some 0]
        (symbol_of ''stocks'' \<lparr>ticker = ''BTC'', quantity = 2::real, avg_cost = 50, purchase_date = None\<rparr>)
       = Some (0::real)"
    by (simp add: dict_get_def symbol_of_def u)
  have m: "[''AAPL'' \<mapsto> Some (150::real)](''BTC'' := None) = [''AAPL'' \<mapsto> Some 150]"
    by (simp add: fun_eq_iff)
  note t = zero_or_null_price_as_missing [where pm = "[''AAPL'' \<mapsto> Some (150::real)]" and x = "''BTC''"
        and p = example_portfolio]
  have s: "summarize [''AAPL'' \<mapsto> Some 150, ''BTC'' \<mapsto> Some 0] example_portfolio
       = summarize [''AAPL'' \<mapsto> Some 150] example_portfolio"
    using t by (simp add: m)
  have asc': "isascii (ticker \<lparr>ticker = ''BTC'', quantity = 2::real, avg_cost = 50, purchase_date = None\<rparr>)"
    by (simp add: asc)
  have i: "value_assets ''stocks'' avg_cost [''AAPL'' \<mapsto> Some 150, ''BTC'' \<mapsto> Some 0]
        [\<lparr>ticker = ''BTC'', quantity = 2, avg_cost = 50, purchase_date = None\<rparr>] (0::real, 0, [])
       = value_assets ''stocks'' avg_cost [''AAPL'' \<mapsto> Some 150, ''BTC'' \<mapsto> Some 0] [] (0, 0, [])"
    using zero_or_null_price_as_missing [where pm = "[''AAPL'' \<mapsto> Some (150::real), ''BTC'' \<mapsto> Some 0]"
        and key = "''stocks''" and cost_field = avg_cost and assets = "[]" and acc = "(0, 0, [])"
        and a = "\<lparr>ticker = ''BTC'', quantity = 2, avg_cost = 50, purchase_date = None\<rparr>"]
      asc' d
    by blast
  have v: "value_assets ''stocks'' avg_cost [''AAPL'' \<mapsto> Some 150, ''BTC'' \<mapsto> Some 0]
        [\<lparr>ticker = ''BTC'', quantity = 2, avg_cost = 50, purchase_date = None\<rparr>] (0, 0, [])
       = (0::real, 0, [])"
    unfolding i by simp
  show ?thesis
    using asc d v s by blast
qed

end
